theory Spec2Isabelle
  imports Complex_Main
begin

section \<open>Payloads of the hosting API\<close>

text \<open>
  The code-frequency payload is a JSON array of triples
  \<^verbatim>\<open>[epoch_seconds, additions, deletions]\<close>; Python's integers are unbounded, so each
  component is an \<^typ>\<open>int\<close>. The contributor-statistics payload is an array of objects
  \<^verbatim>\<open>{author: {login}, weeks: [{w, c}, ...]}\<close>. A Python dict is read with \<^verbatim>\<open>d[key]\<close>,
  which raises \<^verbatim>\<open>KeyError\<close> when the key is absent: a key that may be absent is an
  \<^typ>\<open>'a option\<close> field, \<^term>\<open>None\<close> meaning that the dict has no such key.
  The keys \<^verbatim>\<open>w\<close> and \<^verbatim>\<open>c\<close> of a weekly entry are the fields \<open>week_w\<close> and \<open>week_c\<close>.
\<close>

type_synonym code_freq_entry = "int \<times> int \<times> int"

record week =
  week_w :: int
  week_c :: int

record author_obj =
  login :: "string option"

record contributor =
  author :: "author_obj option"
  weeks :: "week list option"

section \<open>Exceptions\<close>

text \<open>
  The source defines no exception class. What \<^verbatim>\<open>process_data\<close> raises are the
  built-in \<^verbatim>\<open>KeyError\<close> of a dict or DataFrame lookup (with the missing key) and the
  \<^verbatim>\<open>ValueError\<close> of \<^verbatim>\<open>pd.concat\<close> (with its message).
\<close>

datatype error = KeyError string | ValueError string

section \<open>DataFrames\<close>

text \<open>
  A DataFrame is the list of its rows, in index order; a row is a record with one field
  per column. The columns of the code-frequency frame are \<^verbatim>\<open>timestamp\<close>,
  \<^verbatim>\<open>additions\<close>, \<^verbatim>\<open>deletions\<close>; those of the commit frame are \<^verbatim>\<open>timestamp\<close>,
  \<^verbatim>\<open>c\<close>, \<^verbatim>\<open>author\<close>, here \<open>commit_timestamp\<close>, \<open>commit_c\<close>, \<open>commit_author\<close>.

  \<^verbatim>\<open>pd.to_datetime(..., unit="s")\<close> turns epoch seconds into an instant; the instant is
  kept as the number of seconds it was made from.

  A column of integers is stored with a dtype that pandas infers from the values of that
  column alone: signed 64-bit when they all fit, unsigned 64-bit when none is negative and
  one exceeds the signed range, and Python objects (unbounded integers) otherwise or when
  the column has no row. A column keeps the values it is built from whatever its dtype, so
  a row holds an \<^typ>\<open>int\<close>; the dtype decides how arithmetic on the column wraps around.
\<close>

datatype datetime = Timestamp int

datatype dtype = Int64 | UInt64 | Object

definition to_datetime :: "int \<Rightarrow> datetime" where
  "to_datetime s = Timestamp s"

record code_row =
  timestamp :: datetime
  additions :: int
  deletions :: int

record commit_row =
  commit_timestamp :: datetime
  commit_c :: int
  commit_author :: string

section \<open>\<^verbatim>\<open>process_data\<close>\<close>

text \<open>The dtype inferred for a column of integers.\<close>

definition column_dtype :: "int list \<Rightarrow> dtype" where
  "column_dtype col =
     (if col = [] then Object
      else if list_ex (\<lambda>x. x < - 9223372036854775808 \<or> 18446744073709551615 < x) col
              \<or> (list_ex (\<lambda>x. x < 0) col \<and> list_ex (\<lambda>x. 9223372036854775807 < x) col)
           then Object
      else if list_ex (\<lambda>x. 9223372036854775807 < x) col then UInt64
      else Int64)"

text \<open>Wrap-around of the two 64-bit dtypes.\<close>

definition wrap_int64 :: "int \<Rightarrow> int" where
  "wrap_int64 x = (x + 9223372036854775808) mod 18446744073709551616 - 9223372036854775808"

definition wrap_uint64 :: "int \<Rightarrow> int" where
  "wrap_uint64 x = x mod 18446744073709551616"

text \<open>
  One element of \<^verbatim>\<open>-code_dataframe["deletions"].abs()\<close> (line 99): the absolute value,
  then the unary minus, each in the arithmetic of the column's dtype. The absolute value
  of an unsigned number is the number itself, and its negation wraps to a number that is
  not negative.
\<close>

fun neg_abs :: "dtype \<Rightarrow> int \<Rightarrow> int" where
  "neg_abs Int64 d = wrap_int64 (- wrap_int64 \<bar>d\<bar>)"
| "neg_abs UInt64 d = wrap_uint64 (- wrap_uint64 \<bar>d\<bar>)"
| "neg_abs Object d = - \<bar>d\<bar>"

text \<open>
  Lines 96 to 99: the frame is built from the triples, the timestamp column converted,
  and the deletions column replaced by \<^verbatim>\<open>-code_dataframe["deletions"].abs()\<close>. On an
  empty payload \<^verbatim>\<open>pd.DataFrame([], columns=...)\<close> is the frame with the three columns and
  no row.
\<close>

definition process_code_frequency :: "code_freq_entry list \<Rightarrow> code_row list" where
  "process_code_frequency code_freq =
     (let deletions_dtype = column_dtype (map (\<lambda>(t, a, d). d) code_freq)
      in map (\<lambda>(t, a, d). \<lparr>timestamp = to_datetime t, additions = a,
                             deletions = neg_abs deletions_dtype d\<rparr>) code_freq)"

text \<open>
  Lines 106 to 109, the body of the loop after the two dict lookups.
  \<^verbatim>\<open>pd.DataFrame(weeks)\<close> has one row per weekly entry and one column per key; for an
  empty list it has no column at all, the assignment of \<^verbatim>\<open>author\<close> adds that one column,
  and \<^verbatim>\<open>weekly_data["w"]\<close> then raises \<^verbatim>\<open>KeyError\<close>.
\<close>

definition weekly_data :: "string \<Rightarrow> week list \<Rightarrow> error + commit_row list" where
  "weekly_data name wks =
     (if wks = [] then Inl (KeyError ''w'')
      else Inr (map (\<lambda>wk. \<lparr>commit_timestamp = to_datetime (week_w wk),
                             commit_c = week_c wk,
                             commit_author = name\<rparr>) wks))"

text \<open>
  Lines 102 to 109: the loop over the contributors, with \<^verbatim>\<open>contributors_data\<close> as the
  accumulator. The first exception ends the loop and the function.
\<close>

fun contributors_loop :: "contributor list \<Rightarrow> commit_row list list \<Rightarrow> error + commit_row list list" where
  "contributors_loop [] contributors_data = Inr contributors_data"
| "contributors_loop (contributor # rest) contributors_data =
     (case author contributor of
        None \<Rightarrow> Inl (KeyError ''author'')
      | Some a \<Rightarrow>
          (case login a of
             None \<Rightarrow> Inl (KeyError ''login'')
           | Some name \<Rightarrow>
               (case weeks contributor of
                  None \<Rightarrow> Inl (KeyError ''weeks'')
                | Some wks \<Rightarrow>
                    (case weekly_data name wks of
                       Inl e \<Rightarrow> Inl e
                     | Inr df \<Rightarrow> contributors_loop rest (contributors_data @ [df])))))"

text \<open>
  Line 111: \<^verbatim>\<open>pd.concat(contributors_data, ignore_index=True)\<close> appends the frames in
  list order and raises \<^verbatim>\<open>ValueError\<close> on an empty list.
\<close>

definition pd_concat :: "commit_row list list \<Rightarrow> error + commit_row list" where
  "pd_concat dfs =
     (if dfs = [] then Inl (ValueError ''No objects to concatenate'') else Inr (concat dfs))"

definition process_commit_activity :: "contributor list \<Rightarrow> error + commit_row list" where
  "process_commit_activity activity =
     (case contributors_loop activity [] of
        Inl e \<Rightarrow> Inl e
      | Inr contributors_data \<Rightarrow> pd_concat contributors_data)"

definition process_data ::
  "code_freq_entry list \<Rightarrow> contributor list \<Rightarrow> error + (code_row list \<times> commit_row list)" where
  "process_data code_freq activity =
     (let code_dataframe = process_code_frequency code_freq
      in case process_commit_activity activity of
           Inl e \<Rightarrow> Inl e
         | Inr commit_dataframe \<Rightarrow> Inr (code_dataframe, commit_dataframe))"

section \<open>Numbers of \<^verbatim>\<open>plot_data\<close>\<close>

text \<open>
  A float is not-a-number, an infinity or a finite value; finite values are rationals,
  the rounding of a binary float left out. A scalar is an integer or a float. The
  integers of lines 125 and 126 are the mathematical integers: the 64-bit scalars of numpy
  agree with them for magnitudes below \<open>2^63\<close>, and their wrap-around beyond is left out.
\<close>

datatype pyfloat = NaN | PosInf | NegInf | Finite rat

datatype scalar = I int | F pyfloat

fun to_float :: "scalar \<Rightarrow> pyfloat" where
  "to_float (I n) = Finite (of_int n)"
| "to_float (F x) = x"

text \<open>\<^verbatim>\<open>Series.max()\<close> and \<^verbatim>\<open>Series.min()\<close>: not-a-number on a column with no row.\<close>

fun series_max :: "int list \<Rightarrow> scalar" where
  "series_max [] = F NaN"
| "series_max (x # xs) = I (fold max xs x)"

fun series_min :: "int list \<Rightarrow> scalar" where
  "series_min [] = F NaN"
| "series_min (x # xs) = I (fold min xs x)"

text \<open>Truth value of a number: zero is false, everything else (not-a-number too) is true.\<close>

fun truthy :: "scalar \<Rightarrow> bool" where
  "truthy (I n) = (n \<noteq> 0)"
| "truthy (F (Finite q)) = (q \<noteq> 0)"
| "truthy (F _) = True"

definition py_or :: "scalar \<Rightarrow> scalar \<Rightarrow> scalar" where
  "py_or a b = (if truthy a then a else b)"

fun py_abs :: "scalar \<Rightarrow> scalar" where
  "py_abs (I n) = I \<bar>n\<bar>"
| "py_abs (F NaN) = F NaN"
| "py_abs (F PosInf) = F PosInf"
| "py_abs (F NegInf) = F PosInf"
| "py_abs (F (Finite q)) = F (Finite \<bar>q\<bar>)"

text \<open>\<^verbatim>\<open>b > a\<close>: false as soon as one side is not-a-number.\<close>

fun float_gt :: "pyfloat \<Rightarrow> pyfloat \<Rightarrow> bool" where
  "float_gt NaN _ = False"
| "float_gt _ NaN = False"
| "float_gt PosInf PosInf = False"
| "float_gt PosInf _ = True"
| "float_gt NegInf _ = False"
| "float_gt (Finite a) PosInf = False"
| "float_gt (Finite a) NegInf = True"
| "float_gt (Finite a) (Finite b) = (b < a)"

text \<open>The built-in \<^verbatim>\<open>max(a, b)\<close> keeps \<open>a\<close> unless \<^verbatim>\<open>b > a\<close>.\<close>

definition py_max :: "scalar \<Rightarrow> scalar \<Rightarrow> scalar" where
  "py_max a b = (if float_gt (to_float b) (to_float a) then b else a)"

text \<open>
  True division and multiplication of floats. The divisor of line 126 is a numpy integer
  or not-a-number, so a zero divisor gives an infinity or not-a-number (with a warning)
  and never raises.
\<close>

fun float_div :: "pyfloat \<Rightarrow> pyfloat \<Rightarrow> pyfloat" where
  "float_div NaN _ = NaN"
| "float_div _ NaN = NaN"
| "float_div (Finite a) (Finite b) =
     (if b = 0 then (if a = 0 then NaN else if 0 < a then PosInf else NegInf)
      else Finite (a / b))"
| "float_div (Finite a) _ = Finite 0"
| "float_div PosInf (Finite b) = (if b < 0 then NegInf else PosInf)"
| "float_div NegInf (Finite b) = (if b < 0 then PosInf else NegInf)"
| "float_div _ _ = NaN"

fun float_mul :: "pyfloat \<Rightarrow> pyfloat \<Rightarrow> pyfloat" where
  "float_mul NaN _ = NaN"
| "float_mul _ NaN = NaN"
| "float_mul (Finite a) (Finite b) = Finite (a * b)"
| "float_mul (Finite a) PosInf = (if a = 0 then NaN else if 0 < a then PosInf else NegInf)"
| "float_mul (Finite a) NegInf = (if a = 0 then NaN else if 0 < a then NegInf else PosInf)"
| "float_mul PosInf (Finite b) = (if b = 0 then NaN else if 0 < b then PosInf else NegInf)"
| "float_mul NegInf (Finite b) = (if b = 0 then NaN else if 0 < b then NegInf else PosInf)"
| "float_mul PosInf PosInf = PosInf"
| "float_mul PosInf NegInf = NegInf"
| "float_mul NegInf PosInf = NegInf"
| "float_mul NegInf NegInf = PosInf"

definition truediv :: "scalar \<Rightarrow> scalar \<Rightarrow> pyfloat" where
  "truediv a b = float_div (to_float a) (to_float b)"

text \<open>An integer column times a float: \<^verbatim>\<open>code_dataframe["additions"] * scaling_factor\<close>.\<close>

definition series_mul :: "int list \<Rightarrow> pyfloat \<Rightarrow> scalar list" where
  "series_mul col k = map (\<lambda>v. F (float_mul (Finite (of_int v)) k)) col"

section \<open>\<^verbatim>\<open>plot_data\<close>\<close>

text \<open>Lines 125 and 126.\<close>

definition max_commits :: "commit_row list \<Rightarrow> scalar" where
  "max_commits commit_dataframe = py_or (series_max (map commit_c commit_dataframe)) (I 1)"

definition scaling_factor :: "code_row list \<Rightarrow> commit_row list \<Rightarrow> pyfloat" where
  "scaling_factor code_dataframe commit_dataframe =
     truediv (max_commits commit_dataframe)
       (py_max (series_max (map additions code_dataframe))
               (py_abs (series_min (map deletions code_dataframe))))"

text \<open>
  A figure is its title and its traces in the order they were added; a trace is its
  name and its two data series. Colours, fill and line styles are left out.
  \<^verbatim>\<open>Series.unique()\<close> lists the values in order of first appearance.
\<close>

record trace =
  trace_name :: string
  trace_x :: "datetime list"
  trace_y :: "scalar list"

record figure =
  title :: string
  traces :: "trace list"

fun unique :: "'a list \<Rightarrow> 'a list" where
  "unique [] = []"
| "unique (x # xs) = x # unique (filter (\<lambda>y. y \<noteq> x) xs)"

definition contributor_traces :: "string \<Rightarrow> commit_row list \<Rightarrow> trace list" where
  "contributor_traces prefix commit_dataframe =
     map (\<lambda>contributor.
            let contributor_data = filter (\<lambda>r. commit_author r = contributor) commit_dataframe
            in \<lparr>trace_name = prefix @ contributor,
                trace_x = map commit_timestamp contributor_data,
                trace_y = map (\<lambda>r. I (commit_c r)) contributor_data\<rparr>)
         (unique (map commit_author commit_dataframe))"

text \<open>Lines 122 to 177: the combined figure.\<close>

definition fig :: "code_row list \<Rightarrow> commit_row list \<Rightarrow> figure" where
  "fig code_dataframe commit_dataframe =
     (let k = scaling_factor code_dataframe commit_dataframe
      in \<lparr>title = ''Code frequency withing contributor activity'',
          traces =
            [\<lparr>trace_name = ''Additions (scaled)'',
              trace_x = map timestamp code_dataframe,
              trace_y = series_mul (map additions code_dataframe) k\<rparr>,
             \<lparr>trace_name = ''Deletions (scaled)'',
              trace_x = map timestamp code_dataframe,
              trace_y = series_mul (map deletions code_dataframe) k\<rparr>]
            @ contributor_traces ''Commits by: '' commit_dataframe\<rparr>)"

text \<open>Lines 179 to 218: the figure titled \<^verbatim>\<open>Raw code frequency\<close>.\<close>

definition fig_code_freq :: "code_row list \<Rightarrow> commit_row list \<Rightarrow> figure" where
  "fig_code_freq code_dataframe commit_dataframe =
     (let k = scaling_factor code_dataframe commit_dataframe
      in \<lparr>title = ''Raw code frequency'',
          traces =
            [\<lparr>trace_name = ''Additions'',
              trace_x = map timestamp code_dataframe,
              trace_y = map I (map additions code_dataframe)\<rparr>,
             \<lparr>trace_name = ''Additions (scaled)'',
              trace_x = map timestamp code_dataframe,
              trace_y = map I (map additions code_dataframe)\<rparr>,
             \<lparr>trace_name = ''Deletions (scaled)'',
              trace_x = map timestamp code_dataframe,
              trace_y = series_mul (map deletions code_dataframe) k\<rparr>]\<rparr>)"

text \<open>Lines 220 to 239: the figure titled \<^verbatim>\<open>Raw commit activity\<close>.\<close>

definition fig_commit_activity :: "commit_row list \<Rightarrow> figure" where
  "fig_commit_activity commit_dataframe =
     \<lparr>title = ''Raw commit activity'',
      traces = contributor_traces ''Commits by '' commit_dataframe\<rparr>"

text \<open>\<^verbatim>\<open>plot_data\<close> shows three figures; the result is the figures in the order shown.\<close>

definition plot_data :: "code_row list \<Rightarrow> commit_row list \<Rightarrow> figure list" where
  "plot_data code_dataframe commit_dataframe =
     [fig code_dataframe commit_dataframe,
      fig_code_freq code_dataframe commit_dataframe,
      fig_commit_activity commit_dataframe]"

section \<open>The specification's notions\<close>

text \<open>
  The definitions of this section follow the words of the specification, not the code;
  the theorems below compare the code with them.

  The author identifier of a contributor record is the \<^verbatim>\<open>login\<close> of its \<^verbatim>\<open>author\<close>
  object; it is lacking when either key is absent.
\<close>

definition contributor_login :: "contributor \<Rightarrow> string option" where
  "contributor_login contributor =
     (case author contributor of None \<Rightarrow> None | Some a \<Rightarrow> login a)"

text \<open>
  The samples of one contributor record: one per weekly entry and in the order of the
  entries, the timestamp derived from the entry and the author copied from the record.
\<close>

definition contributor_samples :: "contributor \<Rightarrow> commit_row list" where
  "contributor_samples contributor =
     (case contributor_login contributor of
        None \<Rightarrow> []
      | Some name \<Rightarrow>
          (case weeks contributor of
             None \<Rightarrow> []
           | Some wks \<Rightarrow>
               map (\<lambda>wk. \<lparr>commit_timestamp = to_datetime (week_w wk),
                           commit_c = week_c wk,
                           commit_author = name\<rparr>) wks))"

definition week_count :: "contributor \<Rightarrow> nat" where
  "week_count contributor = (case weeks contributor of None \<Rightarrow> 0 | Some wks \<Rightarrow> length wks)"


definition churn_peak :: "code_row list \<Rightarrow> int" where
  "churn_peak code_dataframe =
     max (Max (set (map additions code_dataframe))) \<bar>Min (set (map deletions code_dataframe))\<bar>"

section \<open>Records on which the loop body returns\<close>

text \<open>
  This is a notion of the code, not of the specification: the body of the loop (lines
  104 to 109) raises nothing on a record exactly when the record has its author
  identifier and its list of weekly entries and that list is not empty. For the
  specification a record with no weekly entry is well formed as well.
\<close>

definition contributor_accepted :: "contributor \<Rightarrow> bool" where
  "contributor_accepted contributor =
     (case contributor_login contributor of
        None \<Rightarrow> False
      | Some name \<Rightarrow> (case weeks contributor of None \<Rightarrow> False | Some wks \<Rightarrow> wks \<noteq> []))"

section \<open>Facts about the normalization\<close>

lemma neg_abs_Int64:
  assumes "- 9223372036854775808 \<le> d" and "d < 9223372036854775808"
  shows "neg_abs Int64 d = - \<bar>d\<bar>"
proof (cases "d = - 9223372036854775808")
  case True
  then show ?thesis by (simp add: wrap_int64_def)
next
  case False
  with assms have a: "\<bar>d\<bar> < 9223372036854775808" by linarith
  then have "wrap_int64 \<bar>d\<bar> = \<bar>d\<bar>" by (simp add: wrap_int64_def)
  moreover from a have "wrap_int64 (- \<bar>d\<bar>) = - \<bar>d\<bar>" by (simp add: wrap_int64_def)
  ultimately show ?thesis by simp
qed

lemma column_dtype_signed_range:
  assumes "\<forall>d\<in>set col. d < 9223372036854775808"
  shows "column_dtype col \<noteq> UInt64"
proof -
  from assms have "\<not> list_ex (\<lambda>x. 9223372036854775807 < x) col"
    by (auto simp: list_ex_iff)
  then show ?thesis by (simp add: column_dtype_def)
qed

lemma neg_abs_signed_range:
  assumes "\<forall>x\<in>set col. - 9223372036854775808 \<le> x \<and> x < 9223372036854775808"
    and "d \<in> set col"
  shows "neg_abs (column_dtype col) d = - \<bar>d\<bar>"
proof (cases "column_dtype col")
  case Int64
  with assms neg_abs_Int64 [of d] show ?thesis by simp
next
  case UInt64
  with column_dtype_signed_range [of col] assms(1) show ?thesis by simp
next
  case Object
  then show ?thesis by simp
qed

lemma deletions_signed_range:
  assumes "\<forall>(t, a, d)\<in>set code_freq. - 9223372036854775808 \<le> d \<and> d < 9223372036854775808"
  shows "process_code_frequency code_freq =
           map (\<lambda>(t, a, d). \<lparr>timestamp = to_datetime t, additions = a, deletions = - \<bar>d\<bar>\<rparr>)
               code_freq"
proof -
  let ?col = "map (\<lambda>(t, a, d). d) code_freq"
  have r: "\<forall>x\<in>set ?col. - 9223372036854775808 \<le> x \<and> x < 9223372036854775808"
    using assms by auto
  have "neg_abs (column_dtype ?col) d = - \<bar>d\<bar>" if "(t, a, d) \<in> set code_freq" for t a d
  proof -
    from that have "d \<in> set ?col" by force
    with r show ?thesis by (rule neg_abs_signed_range)
  qed
  then show ?thesis
    by (auto simp: process_code_frequency_def Let_def)
qed


text \<open>The loop returns on accepted records, appending the samples of each to the accumulator,
  and stops with a \<^verbatim>\<open>KeyError\<close> at the first record that is not accepted.\<close>

lemma contributors_loop_complete:
  "list_all contributor_accepted activity \<Longrightarrow>
   contributors_loop activity acc = Inr (acc @ map contributor_samples activity)"
proof (induction activity arbitrary: acc)
  case Nil
  show ?case by simp
next
  case (Cons c cs)
  from Cons.prems have c: "contributor_accepted c" and cs: "list_all contributor_accepted cs"
    by simp_all
  from c obtain a name wks where
    f: "author c = Some a" "login a = Some name" "weeks c = Some wks" "wks \<noteq> []"
    by (auto simp: contributor_accepted_def contributor_login_def split: option.splits)
  have s: "contributor_samples c =
      map (\<lambda>wk. \<lparr>commit_timestamp = to_datetime (week_w wk), commit_c = week_c wk,
                  commit_author = name\<rparr>) wks"
    using f by (simp add: contributor_samples_def contributor_login_def)
  show ?case
    using f s Cons.IH [OF cs] by (simp add: weekly_data_def)
qed

lemma contributors_loop_incomplete:
  "\<not> list_all contributor_accepted activity \<Longrightarrow>
   \<exists>k. contributors_loop activity acc = Inl (KeyError k)"
proof (induction activity arbitrary: acc)
  case Nil
  then show ?case by simp
next
  case (Cons c cs)
  show ?case
  proof (cases "contributor_accepted c")
    case True
    then obtain a name wks where
      f: "author c = Some a" "login a = Some name" "weeks c = Some wks" "wks \<noteq> []"
      by (auto simp: contributor_accepted_def contributor_login_def split: option.splits)
    from True Cons.prems have "\<not> list_all contributor_accepted cs" by simp
    from Cons.IH [OF this] show ?thesis using f by (simp add: weekly_data_def)
  next
    case False
    then show ?thesis
      by (auto simp: contributor_accepted_def contributor_login_def weekly_data_def
               split: option.splits)
  qed
qed

lemma process_commit_activity_complete:
  assumes "activity \<noteq> []" and "list_all contributor_accepted activity"
  shows "process_commit_activity activity = Inr (concat (map contributor_samples activity))"
  using assms contributors_loop_complete [OF assms(2), of "[]"]
  by (simp add: process_commit_activity_def pd_concat_def)


lemma process_commit_activity_incomplete:
  assumes "\<not> list_all contributor_accepted activity"
  shows "\<exists>k. process_commit_activity activity = Inl (KeyError k)"
  using contributors_loop_incomplete [OF assms, of "[]"]
  by (auto simp: process_commit_activity_def)




text \<open>Selecting the rows of one author, as \<^verbatim>\<open>plot_data\<close> does for each trace.\<close>

lemma filter_contributor_samples:
  "filter (\<lambda>r. commit_author r = a) (contributor_samples c) =
     (if contributor_login c = Some a then contributor_samples c else [])"
  by (auto simp: contributor_samples_def split: option.splits intro: filter_False)

lemma filter_author_concat:
  "filter (\<lambda>r. commit_author r = a) (concat (map contributor_samples activity)) =
   concat (map contributor_samples (filter (\<lambda>c. contributor_login c = Some a) activity))"
  by (induction activity) (simp_all add: filter_contributor_samples)

lemma length_contributor_samples:
  "contributor_accepted c \<Longrightarrow> length (contributor_samples c) = week_count c"
  by (auto simp: contributor_samples_def contributor_accepted_def week_count_def split: option.splits)

lemma length_concat_samples:
  "list_all contributor_accepted activity \<Longrightarrow>
   length (concat (map contributor_samples activity)) = sum_list (map week_count activity)"
  by (induction activity) (simp_all add: length_contributor_samples)

section \<open>Facts about the scale\<close>

lemma series_max_Max: "xs \<noteq> [] \<Longrightarrow> series_max xs = I (Max (set xs))"
proof (cases xs)
  case Nil
  assume "xs \<noteq> []"
  with Nil show ?thesis by simp
next
  case (Cons a list)
  then show ?thesis using Max.set_eq_fold [of a list] by simp
qed

lemma series_min_Min: "xs \<noteq> [] \<Longrightarrow> series_min xs = I (Min (set xs))"
proof (cases xs)
  case Nil
  assume "xs \<noteq> []"
  with Nil show ?thesis by simp
next
  case (Cons a list)
  then show ?thesis using Min.set_eq_fold [of a list] by simp
qed

lemma py_max_int: "to_float (py_max (I a) (I b)) = Finite (of_int (max a b))"
  by (simp add: py_max_def max_def)

lemma churn_divisor:
  assumes "code_dataframe \<noteq> []"
  shows "to_float (py_max (series_max (map additions code_dataframe))
                          (py_abs (series_min (map deletions code_dataframe))))
         = Finite (of_int (churn_peak code_dataframe))"
  using assms by (simp add: series_max_Max series_min_Min py_max_int churn_peak_def)

lemma max_commits_nonempty:
  assumes "commit_dataframe \<noteq> []"
  shows "max_commits commit_dataframe =
     I (if Max (set (map commit_c commit_dataframe)) = 0 then 1
        else Max (set (map commit_c commit_dataframe)))"
  using assms by (simp add: max_commits_def series_max_Max py_or_def)

lemma scaling_factor_nonempty:
  assumes "code_dataframe \<noteq> []" and "commit_dataframe \<noteq> []"
  shows "scaling_factor code_dataframe commit_dataframe =
     float_div (Finite (of_int (if Max (set (map commit_c commit_dataframe)) = 0 then 1
                                else Max (set (map commit_c commit_dataframe)))))
               (Finite (of_int (churn_peak code_dataframe)))"
  using assms
  by (simp add: scaling_factor_def truediv_def churn_divisor max_commits_nonempty
           del: of_int_eq_iff)



lemma float_div_NaN_right: "float_div x NaN = NaN"
  by (cases x) simp_all

section \<open>The claims\<close>

subsection \<open>Scale formula\<close>



subsection \<open>Sign of the churn columns\<close>

text \<open>
  Claim C2, as stated, fails: a deletions count of \<open>2^63\<close> is a non-negative count, the
  deletions column is then unsigned, and the unary minus of line 99 wraps to \<open>2^63\<close>, a
  positive number.
\<close>

theorem unsigned_deletions_positive:
  "process_code_frequency [(604800, 5, 9223372036854775808)]
     = [\<lparr>timestamp = Timestamp 604800, additions = 5, deletions = 9223372036854775808\<rparr>]
   \<and> 0 < deletions (hd (process_code_frequency [(604800, 5, 9223372036854775808)]))"
  by (simp add: process_code_frequency_def column_dtype_def wrap_uint64_def to_datetime_def)

text \<open>
  Claim C2, amended. For every churn payload whose records carry two non-negative counts,
  the deletions counts below \<open>2^63\<close> (the signed 64-bit range), every row of the normalized
  churn frame satisfies \<open>deletions \<le> 0 \<le> additions\<close>. The churn normalization raises on no
  list of triples.
\<close>

theorem churn_sign_invariant:
  assumes "\<forall>(t, a, d)\<in>set code_freq. 0 \<le> a \<and> 0 \<le> d \<and> d < 9223372036854775808"
  shows "\<forall>r\<in>set (process_code_frequency code_freq). deletions r \<le> 0 \<and> 0 \<le> additions r"
proof -
  have "\<forall>(t, a, d)\<in>set code_freq. - 9223372036854775808 \<le> d \<and> d < 9223372036854775808"
    using assms by fastforce
  from deletions_signed_range [OF this] assms show ?thesis by auto
qed

theorem churn_sign_invariant_witness:
  "list_all (\<lambda>(t, a, d). (0::int) \<le> a \<and> (0::int) \<le> d \<and> d < 9223372036854775808)
     [(0::int, 3, 7), (604800, 0, 0)]
   \<and> process_code_frequency [(0, 3, 7), (604800, 0, 0)]
       = [\<lparr>timestamp = Timestamp 0, additions = 3, deletions = - 7\<rparr>,
          \<lparr>timestamp = Timestamp 604800, additions = 0, deletions = 0\<rparr>]
   \<and> list_all (\<lambda>r. deletions r \<le> 0 \<and> 0 \<le> additions r)
        (process_code_frequency [(0, 3, 7), (604800, 0, 0)])"
proof -
  have h: "\<forall>(t, a, d)\<in>set [(0, 3, 7), (604800, 0, 0::int)].
             (0::int) \<le> a \<and> 0 \<le> d \<and> d < 9223372036854775808"
    by simp
  have e: "process_code_frequency [(0, 3, 7), (604800, 0, 0)]
       = [\<lparr>timestamp = Timestamp 0, additions = 3, deletions = - 7\<rparr>,
          \<lparr>timestamp = Timestamp 604800, additions = 0, deletions = 0\<rparr>]"
    by (simp add: process_code_frequency_def column_dtype_def wrap_int64_def to_datetime_def)
  from churn_sign_invariant [OF h]
  have "list_all (\<lambda>r. deletions r \<le> 0 \<and> 0 \<le> additions r)
        (process_code_frequency [(0, 3, 7), (604800, 0, 0)])"
    unfolding list_all_iff .
  with e show ?thesis by simp
qed

subsection \<open>Flattening\<close>

text \<open>
  On a non-empty payload of accepted records the commit normalization returns the samples
  of the records one after the other: one sample per (contributor, week) pair, tagged with
  the contributor's login, and the rows of one author are the samples of that author's
  records in the order of their week lists. The example is the payload with A (3 weeks)
  and B (2 weeks): 5 samples, 3 tagged A and 2 tagged B, each group in input order.
\<close>

lemma flatten_accepted:
  assumes "activity \<noteq> []" and "\<forall>c\<in>set activity. contributor_accepted c"
  shows "\<exists>out. process_commit_activity activity = Inr out
           \<and> out = concat (map contributor_samples activity)
           \<and> length out = sum_list (map week_count activity)
           \<and> (\<forall>a. filter (\<lambda>r. commit_author r = a) out =
                  concat (map contributor_samples
                            (filter (\<lambda>c. contributor_login c = Some a) activity)))"
proof -
  have all: "list_all contributor_accepted activity"
    using assms(2) by (simp add: list_all_iff)
  show ?thesis
    using process_commit_activity_complete [OF assms(1) all] length_concat_samples [OF all]
      filter_author_concat [of _ activity]
    by simp
qed

lemma flatten_accepted_example:
  "[\<lparr>author = Some \<lparr>login = Some ''A''\<rparr>,
     weeks = Some [\<lparr>week_w = 0, week_c = 4\<rparr>, \<lparr>week_w = 604800, week_c = 0\<rparr>,
                   \<lparr>week_w = 1209600, week_c = 7\<rparr>]\<rparr>,
    \<lparr>author = Some \<lparr>login = Some ''B''\<rparr>,
     weeks = Some [\<lparr>week_w = 0, week_c = 1\<rparr>, \<lparr>week_w = 604800, week_c = 2\<rparr>]\<rparr>] \<noteq> []
   \<and> list_all contributor_accepted
        [\<lparr>author = Some \<lparr>login = Some ''A''\<rparr>,
     weeks = Some [\<lparr>week_w = 0, week_c = 4\<rparr>, \<lparr>week_w = 604800, week_c = 0\<rparr>,
                   \<lparr>week_w = 1209600, week_c = 7\<rparr>]\<rparr>,
    \<lparr>author = Some \<lparr>login = Some ''B''\<rparr>,
     weeks = Some [\<lparr>week_w = 0, week_c = 1\<rparr>, \<lparr>week_w = 604800, week_c = 2\<rparr>]\<rparr>]
   \<and> (\<exists>out. process_commit_activity
        [\<lparr>author = Some \<lparr>login = Some ''A''\<rparr>,
     weeks = Some [\<lparr>week_w = 0, week_c = 4\<rparr>, \<lparr>week_w = 604800, week_c = 0\<rparr>,
                   \<lparr>week_w = 1209600, week_c = 7\<rparr>]\<rparr>,
    \<lparr>author = Some \<lparr>login = Some ''B''\<rparr>,
     weeks = Some [\<lparr>week_w = 0, week_c = 1\<rparr>, \<lparr>week_w = 604800, week_c = 2\<rparr>]\<rparr>] = Inr out
      \<and> out = [\<lparr>commit_timestamp = Timestamp 0, commit_c = 4, commit_author = ''A''\<rparr>,
               \<lparr>commit_timestamp = Timestamp 604800, commit_c = 0, commit_author = ''A''\<rparr>,
               \<lparr>commit_timestamp = Timestamp 1209600, commit_c = 7, commit_author = ''A''\<rparr>,
               \<lparr>commit_timestamp = Timestamp 0, commit_c = 1, commit_author = ''B''\<rparr>,
               \<lparr>commit_timestamp = Timestamp 604800, commit_c = 2, commit_author = ''B''\<rparr>]
      \<and> length out = 5
      \<and> filter (\<lambda>r. commit_author r = ''A'') out =
              [\<lparr>commit_timestamp = Timestamp 0, commit_c = 4, commit_author = ''A''\<rparr>,
               \<lparr>commit_timestamp = Timestamp 604800, commit_c = 0, commit_author = ''A''\<rparr>,
               \<lparr>commit_timestamp = Timestamp 1209600, commit_c = 7, commit_author = ''A''\<rparr>]
      \<and> filter (\<lambda>r. commit_author r = ''B'') out =
              [\<lparr>commit_timestamp = Timestamp 0, commit_c = 1, commit_author = ''B''\<rparr>,
               \<lparr>commit_timestamp = Timestamp 604800, commit_c = 2, commit_author = ''B''\<rparr>])"
proof -
  let ?act = "[\<lparr>author = Some \<lparr>login = Some ''A''\<rparr>,
     weeks = Some [\<lparr>week_w = 0, week_c = 4\<rparr>, \<lparr>week_w = 604800, week_c = 0\<rparr>,
                   \<lparr>week_w = 1209600, week_c = 7\<rparr>]\<rparr>,
    \<lparr>author = Some \<lparr>login = Some ''B''\<rparr>,
     weeks = Some [\<lparr>week_w = 0, week_c = 1\<rparr>, \<lparr>week_w = 604800, week_c = 2\<rparr>]\<rparr>]"
  have ne: "?act \<noteq> []" by simp
  have ok: "\<forall>c\<in>set ?act. contributor_accepted c"
    by (simp add: contributor_accepted_def contributor_login_def)
  show ?thesis
    using ne ok flatten_accepted [OF ne ok]
    by (simp add: contributor_samples_def contributor_login_def to_datetime_def week_count_def)
qed

text \<open>
  Claim C3. The flattening is not reached for every well-formed payload. A contributor
  with no weekly entry is well formed and contributes no sample; for the payload with A
  (2 weeks) and B (no week) the claim gives the 2 samples of A. In the code the frame of
  B has no column \<^verbatim>\<open>w\<close>, line 108 raises \<^verbatim>\<open>KeyError\<close> and no sample is returned at all.
\<close>

theorem empty_week_list_raises:
  "process_commit_activity
     [\<lparr>author = Some \<lparr>login = Some ''A''\<rparr>,
       weeks = Some [\<lparr>week_w = 0, week_c = 4\<rparr>, \<lparr>week_w = 604800, week_c = 1\<rparr>]\<rparr>,
      \<lparr>author = Some \<lparr>login = Some ''B''\<rparr>, weeks = Some []\<rparr>]
     = Inl (KeyError ''w'')
   \<and> concat (map contributor_samples
     [\<lparr>author = Some \<lparr>login = Some ''A''\<rparr>,
       weeks = Some [\<lparr>week_w = 0, week_c = 4\<rparr>, \<lparr>week_w = 604800, week_c = 1\<rparr>]\<rparr>,
      \<lparr>author = Some \<lparr>login = Some ''B''\<rparr>, weeks = Some []\<rparr>])
     = [\<lparr>commit_timestamp = Timestamp 0, commit_c = 4, commit_author = ''A''\<rparr>,
        \<lparr>commit_timestamp = Timestamp 604800, commit_c = 1, commit_author = ''A''\<rparr>]"
  by (simp add: process_commit_activity_def weekly_data_def contributor_samples_def
      contributor_login_def to_datetime_def)

subsection \<open>Zero churn\<close>

text \<open>
  Claim C4, as stated, fails: the source has no \<^verbatim>\<open>DegenerateSeries\<close> and no path that
  skips a figure. On an all-zero churn frame with one row and a commit frame with maximum
  5 the division of line 126 yields positive infinity, and all three figures are shown,
  the combined one first.
\<close>

theorem zero_churn_renders_overlay:
  "scaling_factor [\<lparr>timestamp = Timestamp 0, additions = 0, deletions = 0\<rparr>]
                  [\<lparr>commit_timestamp = Timestamp 0, commit_c = 5, commit_author = ''A''\<rparr>] = PosInf
   \<and> map title (plot_data [\<lparr>timestamp = Timestamp 0, additions = 0, deletions = 0\<rparr>]
                  [\<lparr>commit_timestamp = Timestamp 0, commit_c = 5, commit_author = ''A''\<rparr>])
     = [''Code frequency withing contributor activity'', ''Raw code frequency'',
        ''Raw commit activity'']"
  by (simp add: scaling_factor_def truediv_def max_commits_def py_or_def py_max_def
      plot_data_def fig_def fig_code_freq_def fig_commit_activity_def Let_def)

text \<open>
  Claim C4, amended. For every input where all additions and deletions are zero (the
  empty churn frame included) the scale computation raises nothing and its value is not
  finite: not-a-number when the churn frame or the commit frame has no row, and otherwise
  an infinity, positive unless every commit count is negative. The combined figure is not
  skipped: the three figures are all shown, the combined one first.
\<close>

theorem zero_churn_no_error:
  assumes "\<forall>r\<in>set code_dataframe. additions r = 0 \<and> deletions r = 0"
  shows "scaling_factor code_dataframe commit_dataframe =
           (if code_dataframe = [] \<or> commit_dataframe = [] then NaN
            else if 0 \<le> Max (set (map commit_c commit_dataframe)) then PosInf
            else NegInf)
         \<and> map title (plot_data code_dataframe commit_dataframe)
           = [''Code frequency withing contributor activity'', ''Raw code frequency'',
              ''Raw commit activity'']"
proof -
  have t: "map title (plot_data code_dataframe commit_dataframe)
           = [''Code frequency withing contributor activity'', ''Raw code frequency'',
              ''Raw commit activity'']"
    by (simp add: plot_data_def fig_def fig_code_freq_def fig_commit_activity_def Let_def)
  have s: "scaling_factor code_dataframe commit_dataframe =
           (if code_dataframe = [] \<or> commit_dataframe = [] then NaN
            else if 0 \<le> Max (set (map commit_c commit_dataframe)) then PosInf
            else NegInf)"
  proof (cases "code_dataframe = []")
    case True
    then show ?thesis
      by (simp add: scaling_factor_def truediv_def py_max_def float_div_NaN_right)
  next
    case False
    then have a: "set (map additions code_dataframe) = {0}"
      and d: "set (map deletions code_dataframe) = {0}"
      using assms by (cases code_dataframe; auto)+
    have pk: "churn_peak code_dataframe = 0"
      unfolding churn_peak_def a d by simp
    show ?thesis
    proof (cases "commit_dataframe = []")
      case True
      then show ?thesis
        by (simp add: scaling_factor_def truediv_def max_commits_def py_or_def)
    next
      case ne: False
      show ?thesis
        using False ne by (simp add: scaling_factor_nonempty [OF False ne] pk)
    qed
  qed
  from s t show ?thesis by simp
qed

theorem zero_churn_no_error_witness:
  "list_all (\<lambda>r. additions r = 0 \<and> deletions r = 0)
       [\<lparr>timestamp = Timestamp 0, additions = 0, deletions = 0\<rparr>,
        \<lparr>timestamp = Timestamp 604800, additions = 0, deletions = 0\<rparr>]
   \<and> scaling_factor [\<lparr>timestamp = Timestamp 0, additions = 0, deletions = 0\<rparr>,
             \<lparr>timestamp = Timestamp 604800, additions = 0, deletions = 0\<rparr>]
        [\<lparr>commit_timestamp = Timestamp 0, commit_c = 2, commit_author = ''B''\<rparr>]
       = PosInf
   \<and> map title (plot_data [\<lparr>timestamp = Timestamp 0, additions = 0, deletions = 0\<rparr>,
             \<lparr>timestamp = Timestamp 604800, additions = 0, deletions = 0\<rparr>]
        [\<lparr>commit_timestamp = Timestamp 0, commit_c = 2, commit_author = ''B''\<rparr>])
     = [''Code frequency withing contributor activity'', ''Raw code frequency'',
        ''Raw commit activity'']"
proof -
  let ?cd = "[\<lparr>timestamp = Timestamp 0, additions = 0, deletions = 0\<rparr>,
             \<lparr>timestamp = Timestamp 604800, additions = 0, deletions = 0\<rparr>]"
  have h: "\<forall>r\<in>set ?cd. additions r = 0 \<and> deletions r = 0" by simp
  from zero_churn_no_error [OF h,
      of "[\<lparr>commit_timestamp = Timestamp 0, commit_c = 2, commit_author = ''B''\<rparr>]"]
  show ?thesis by simp
qed

subsection \<open>Empty payloads\<close>

text \<open>
  Claim C5. The churn normalization maps the empty payload to the empty frame. The
  commit normalization does not: on the empty payload the loop leaves
  \<^verbatim>\<open>contributors_data\<close> empty and \<^verbatim>\<open>pd.concat\<close> raises \<^verbatim>\<open>ValueError\<close>, so
  \<^verbatim>\<open>process_data\<close> returns no frame at all.
\<close>

theorem empty_payloads:
  "process_code_frequency [] = []
   \<and> process_commit_activity [] = Inl (ValueError ''No objects to concatenate'')
   \<and> process_data [] [] = Inl (ValueError ''No objects to concatenate'')"
  by (simp add: process_code_frequency_def column_dtype_def process_commit_activity_def
      pd_concat_def process_data_def)

subsection \<open>All-zero commit counts\<close>



subsection \<open>Missing keys\<close>

text \<open>
  Claim C7. For every payload with a contributor record that lacks its author identifier
  or its list of weekly entries, the commit normalization and \<^verbatim>\<open>process_data\<close> raise:
  the result is an exception and carries no frame, so no sample of any contributor is
  returned. The exception is Python's \<^verbatim>\<open>KeyError\<close>, the form a malformed payload takes in
  the source.
\<close>

theorem missing_key_fails:
  assumes "\<exists>c\<in>set activity. contributor_login c = None \<or> weeks c = None"
  shows "\<exists>k. process_commit_activity activity = Inl (KeyError k)
             \<and> process_data code_freq activity = Inl (KeyError k)"
proof -
  from assms obtain c where c: "c \<in> set activity"
    and bad: "contributor_login c = None \<or> weeks c = None"
    by blast
  from bad have "\<not> contributor_accepted c"
    by (auto simp: contributor_accepted_def split: option.splits)
  with c have "\<not> list_all contributor_accepted activity"
    by (auto simp: list_all_iff)
  from process_commit_activity_incomplete [OF this] show ?thesis
    by (auto simp: process_data_def)
qed

theorem missing_key_fails_witness:
  "(\<exists>c\<in>set [\<lparr>author = Some \<lparr>login = Some ''A''\<rparr>, weeks = Some [\<lparr>week_w = 0, week_c = 4\<rparr>]\<rparr>,
             \<lparr>author = Some \<lparr>login = Some ''B''\<rparr>, weeks = None\<rparr>].
      contributor_login c = None \<or> weeks c = None)
   \<and> (\<exists>k. process_commit_activity
            [\<lparr>author = Some \<lparr>login = Some ''A''\<rparr>, weeks = Some [\<lparr>week_w = 0, week_c = 4\<rparr>]\<rparr>,
             \<lparr>author = Some \<lparr>login = Some ''B''\<rparr>, weeks = None\<rparr>] = Inl (KeyError k)
         \<and> process_data [(0, 3, 7)]
            [\<lparr>author = Some \<lparr>login = Some ''A''\<rparr>, weeks = Some [\<lparr>week_w = 0, week_c = 4\<rparr>]\<rparr>,
             \<lparr>author = Some \<lparr>login = Some ''B''\<rparr>, weeks = None\<rparr>] = Inl (KeyError k))"
proof -
  let ?act = "[\<lparr>author = Some \<lparr>login = Some ''A''\<rparr>, weeks = Some [\<lparr>week_w = 0, week_c = 4\<rparr>]\<rparr>,
             \<lparr>author = Some \<lparr>login = Some ''B''\<rparr>, weeks = None\<rparr>]"
  have h: "\<exists>c\<in>set ?act. contributor_login c = None \<or> weeks c = None" by simp
  from h missing_key_fails [OF h, of "[(0, 3, 7)]"] show ?thesis by blast
qed

subsection \<open>The raw churn figure\<close>

text \<open>
  Claim C8. The figure titled \<^verbatim>\<open>Raw code frequency\<close> plots the additions unscaled, twice,
  and the deletions multiplied by the scaling factor (line 204): with additions 100,
  deletions \<open>-40\<close> and the factor \<open>5 / 100\<close> its third trace is \<open>-2\<close>, not \<open>-40\<close>.
\<close>

theorem raw_chart_scales_deletions:
  "scaling_factor [\<lparr>timestamp = Timestamp 0, additions = 100, deletions = - 40\<rparr>]
                  [\<lparr>commit_timestamp = Timestamp 0, commit_c = 5, commit_author = ''A''\<rparr>]
     = Finite (5 / 100)
   \<and> plot_data [\<lparr>timestamp = Timestamp 0, additions = 100, deletions = - 40\<rparr>]
                [\<lparr>commit_timestamp = Timestamp 0, commit_c = 5, commit_author = ''A''\<rparr>] ! 1
     = \<lparr>title = ''Raw code frequency'',
        traces = [\<lparr>trace_name = ''Additions'', trace_x = [Timestamp 0], trace_y = [I 100]\<rparr>,
                  \<lparr>trace_name = ''Additions (scaled)'', trace_x = [Timestamp 0],
                   trace_y = [I 100]\<rparr>,
                  \<lparr>trace_name = ''Deletions (scaled)'', trace_x = [Timestamp 0],
                   trace_y = [F (Finite (- 2))]\<rparr>]\<rparr>"
  by (simp add: scaling_factor_def truediv_def max_commits_def py_or_def py_max_def
      plot_data_def fig_code_freq_def series_mul_def Let_def)

subsection \<open>Sign of the raw deletions\<close>

text \<open>
  Claim C9, as stated, fails: for the raw deletions value \<open>2^63\<close> the column is unsigned,
  the absolute value is the value itself, and its negation wraps to \<open>2^63\<close>, which is
  positive and is not the negated absolute value \<open>- 2^63\<close>.
\<close>

theorem deletions_wrap_unsigned:
  "map deletions (process_code_frequency [(0, 0, 9223372036854775808)])
     = [9223372036854775808]"
  by (simp add: process_code_frequency_def column_dtype_def wrap_uint64_def)

text \<open>
  Claim C9, amended. When the raw deletions values of the payload lie in the signed 64-bit
  range, \<open>- 2^63 \<le> d < 2^63\<close>, whatever their sign, the normalized deletions are the
  negated absolute values of the raw values, hence never positive.
\<close>

theorem deletions_negated_magnitude:
  assumes "\<forall>(t, a, d)\<in>set code_freq. - 9223372036854775808 \<le> d \<and> d < 9223372036854775808"
  shows "map deletions (process_code_frequency code_freq) = map (\<lambda>(t, a, d). - \<bar>d\<bar>) code_freq
         \<and> (\<forall>r\<in>set (process_code_frequency code_freq). deletions r \<le> 0)"
  by (auto simp: deletions_signed_range [OF assms])

theorem deletions_negated_magnitude_witness:
  "list_all (\<lambda>(t, a, d). - 9223372036854775808 \<le> d \<and> d < 9223372036854775808)
     [(0::int, 3::int, 7::int), (604800, 2, - 4), (1209600, 0, - 9223372036854775808)]
   \<and> map deletions (process_code_frequency
        [(0, 3, 7), (604800, 2, - 4), (1209600, 0, - 9223372036854775808)])
     = [- 7, - 4, - 9223372036854775808]
   \<and> list_all (\<lambda>r. deletions r \<le> 0)
       (process_code_frequency [(0, 3, 7), (604800, 2, - 4), (1209600, 0, - 9223372036854775808)])"
proof -
  have h: "\<forall>(t, a, d)\<in>set [(0::int, 3::int, 7::int), (604800, 2, - 4),
                             (1209600, 0, - 9223372036854775808)].
             - 9223372036854775808 \<le> d \<and> d < 9223372036854775808"
    by simp
  from deletions_negated_magnitude [OF h] show ?thesis
    by (simp add: list_all_iff)
qed

subsection \<open>Duplicate authors\<close>



end
